theory Spec2Isabelle
  imports Complex_Main
begin

section \<open>Synthetic telemetry backend: the sample generator and the connection handler\<close>

text \<open>
  The development embeds \<^verbatim>\<open>generate_sample\<close> and \<^verbatim>\<open>websocket_telemetry\<close> of
  \<^verbatim>\<open>main.py\<close>. Python floats are idealised as real numbers: \<^verbatim>\<open>math.sin\<close>,
  \<^verbatim>\<open>math.cos\<close>, \<^verbatim>\<open>abs\<close> and the float arithmetic are the functions of the same name
  on \<^typ>\<open>real\<close>, and a float literal such as \<^verbatim>\<open>0.08\<close> is the rational it denotes.
  Rounding error, infinities and NaN are outside this model.
\<close>

subsection \<open>Numbers\<close>

text \<open>
  Python's \<^verbatim>\<open>int(x)\<close> on a float discards the fractional part: it truncates toward zero.
\<close>

definition py_int :: "real \<Rightarrow> int" where
  "py_int v = (if 0 \<le> v then \<lfloor>v\<rfloor> else \<lceil>v\<rceil>)"

subsection \<open>The random source\<close>

text \<open>
  \<^verbatim>\<open>random.random()\<close> reads the next draw of the process-wide generator and advances it.
  The generator's state is the sequence of draws still to come; a call returns the head
  and the state that remains.
\<close>

type_synonym rand_source = "nat \<Rightarrow> real"

definition random :: "rand_source \<Rightarrow> real \<times> rand_source" where
  "random s = (s 0, \<lambda>n. s (Suc n))"

text \<open>A source that returns the same number at every draw.\<close>

definition fixed_source :: "real \<Rightarrow> rand_source" where
  "fixed_source c = (\<lambda>n. c)"

text \<open>Every draw of \<^verbatim>\<open>random.random()\<close> lies in the half-open unit interval.\<close>

definition unit_draws :: "rand_source \<Rightarrow> bool" where
  "unit_draws s = (\<forall>n. 0 \<le> s n \<and> s n < 1)"

subsection \<open>The telemetry sample\<close>

record motion_rec =
  x_axis :: real
  y_axis :: real
  z_axis :: real

record eeg_rec =
  alpha :: real
  beta :: real
  gamma :: real
  theta :: real
  delta :: real

record telemetry_sample =
  timestamp :: int
  heartRate :: int
  oxygenSaturation :: int
  lactateThreshold :: real
  motion :: motion_rec
  emg :: "real list"
  eeg :: eeg_rec

subsection \<open>The sample generator\<close>

text \<open>
  The list comprehension of line 82 runs \<^verbatim>\<open>i\<close> over \<^verbatim>\<open>range(8)\<close> and makes one draw
  per channel, in channel order.
\<close>

fun emg_channels :: "real \<Rightarrow> nat list \<Rightarrow> rand_source \<Rightarrow> real list \<times> rand_source" where
  "emg_channels ts [] s = ([], s)"
| "emg_channels ts (i # is) s =
     (let (r, s1) = random s;
          v = 0.5 * sin (ts / (0.08 + real i * 0.01)) + (r - 0.5) * 0.2;
          (vs, s2) = emg_channels ts is s1
      in (v # vs, s2))"

definition generate_sample :: "real \<Rightarrow> rand_source \<Rightarrow> telemetry_sample \<times> rand_source" where
  "generate_sample ts s0 =
     (let (r1, s1) = random s0;
          heart_rate = 55 + py_int (25 * sin (ts / 0.5)) + py_int (r1 * 5);
          (r2, s2) = random s1;
          oxygen = 96 + py_int (r2 * 3);
          (r3, s3) = random s2;
          lactate = 3.8 + r3 * 0.6;
          motion_v = \<lparr> x_axis = sin (ts / 0.4) * 0.5,
                       y_axis = cos (ts / 0.5) * 0.5,
                       z_axis = sin (ts / 0.7) * 0.5 \<rparr>;
          (emg_v, s4) = emg_channels ts [0..<8] s3;
          eeg_v = \<lparr> alpha = \<bar>sin (ts / 0.9)\<bar>,
                    beta = \<bar>sin (ts / 0.7)\<bar>,
                    gamma = \<bar>sin (ts / 0.5)\<bar>,
                    theta = \<bar>sin (ts / 1.2)\<bar>,
                    delta = \<bar>sin (ts / 1.5)\<bar> \<rparr>
      in (\<lparr> timestamp = py_int (ts * 1000),
             heartRate = heart_rate,
             oxygenSaturation = oxygen,
             lactateThreshold = lactate,
             motion = motion_v,
             emg = emg_v,
             eeg = eeg_v \<rparr>, s4))"


subsection \<open>The formulas as the specification words them\<close>

text \<open>
  The specification writes the integer fields with \<^verbatim>\<open>round\<close>, rounding to the nearest
  integer. These definitions follow its words; they are compared with the code below.
\<close>

definition spec_heartRate :: "real \<Rightarrow> real \<Rightarrow> int" where
  "spec_heartRate ts r = 55 + round (25 * sin (ts / 0.5)) + round (r * 5)"

definition spec_oxygenSaturation :: "real \<Rightarrow> int" where
  "spec_oxygenSaturation r = 96 + round (r * 3)"

definition spec_timestamp :: "real \<Rightarrow> int" where
  "spec_timestamp ts = round (ts * 1000)"

section \<open>The connection handler\<close>

subsection \<open>Exceptions\<close>

text \<open>
  The handler of lines 100 to 118 tells three classes of exception apart:
  \<^verbatim>\<open>WebSocketDisconnect\<close>, which is itself an \<^verbatim>\<open>Exception\<close>; any other instance of
  \<^verbatim>\<open>Exception\<close>, kept with its \<^verbatim>\<open>str()\<close>; and an exception outside \<^verbatim>\<open>Exception\<close>
  (a \<^verbatim>\<open>BaseException\<close> such as \<^verbatim>\<open>asyncio.CancelledError\<close> or \<^verbatim>\<open>KeyboardInterrupt\<close>),
  which no \<^verbatim>\<open>except Exception\<close> clause catches.
\<close>

datatype exn = WebSocketDisconnect | OtherException string | NonException string

text \<open>\<^verbatim>\<open>isinstance(e, Exception)\<close>, the test an \<^verbatim>\<open>except Exception\<close> clause makes.\<close>

fun is_exception :: "exn \<Rightarrow> bool" where
  "is_exception WebSocketDisconnect = True"
| "is_exception (OtherException msg) = True"
| "is_exception (NonException msg) = False"

subsection \<open>The environment of one connection\<close>

text \<open>
  What the event loop and the peer do is given from outside. One tick records the clock
  reading that \<^verbatim>\<open>asyncio.get_event_loop().time()\<close> returns in that iteration and whether
  \<^verbatim>\<open>ws.send_text\<close> and \<^verbatim>\<open>asyncio.sleep\<close> raise there. A connection records whether
  \<^verbatim>\<open>ws.accept\<close> raises, the ticks the model follows, and whether \<^verbatim>\<open>ws.close\<close> raises.
\<close>

record tick =
  now :: real
  send_text_raises :: "exn option"
  sleep_raises :: "exn option"

record connection =
  accept_raises :: "exn option"
  ticks :: "tick list"
  close_raises :: "exn option"

text \<open>
  The calls the handler makes, in order. \<open>SendText\<close> carries the sample whose
  \<^verbatim>\<open>json.dumps\<close> text is sent; the encoding itself is not modelled.
\<close>

datatype action = Accept | SendText telemetry_sample | Sleep real | Close int string

fun is_close :: "action \<Rightarrow> bool" where
  "is_close (Close code reason) = True"
| "is_close a = False"

subsection \<open>The streaming loop and the handler\<close>

text \<open>
  The loop of lines 106 to 110 has no exit of its own: it ends only when a step raises.
  The model follows it through the ticks it is given; \<open>Pending\<close> says that all of them
  passed without an exception and the loop is still running.
\<close>

datatype loop_exit = Raised exn | Pending

datatype outcome = Returned | Propagated exn | Streaming

fun streaming_loop :: "tick list \<Rightarrow> rand_source \<Rightarrow> action list \<times> loop_exit" where
  "streaming_loop [] s = ([], Pending)"
| "streaming_loop (t # rest) s =
     (let ts = now t;
          (sample, s') = generate_sample ts s
      in case send_text_raises t of
           Some e \<Rightarrow> ([SendText sample], Raised e)
         | None \<Rightarrow>
             (case sleep_raises t of
                Some e \<Rightarrow> ([SendText sample, Sleep 0.1], Raised e)
              | None \<Rightarrow>
                  (let (acts, r) = streaming_loop rest s'
                   in (SendText sample # Sleep 0.1 # acts, r))))"

text \<open>
  The handler: \<^verbatim>\<open>ws.accept()\<close> outside the \<^verbatim>\<open>try\<close>, then the loop;
  \<^verbatim>\<open>except WebSocketDisconnect: return\<close>; \<^verbatim>\<open>except Exception as e\<close> closes with code
  1011 and reason \<^verbatim>\<open>str(e)\<close> inside a \<^verbatim>\<open>try\<close> whose \<^verbatim>\<open>except Exception: pass\<close>
  swallows what the close raises. An exception outside \<^verbatim>\<open>Exception\<close> leaves the handler.
  The result is the calls made and how the handler ended.
\<close>

definition websocket_telemetry :: "connection \<Rightarrow> rand_source \<Rightarrow> action list \<times> outcome" where
  "websocket_telemetry c s =
     (case accept_raises c of
        Some e \<Rightarrow> ([Accept], Propagated e)
      | None \<Rightarrow>
          (case streaming_loop (ticks c) s of
             (acts, Pending) \<Rightarrow> (Accept # acts, Streaming)
           | (acts, Raised WebSocketDisconnect) \<Rightarrow> (Accept # acts, Returned)
           | (acts, Raised (OtherException msg)) \<Rightarrow>
               (case close_raises c of
                  None \<Rightarrow> (Accept # acts @ [Close 1011 msg], Returned)
                | Some e' \<Rightarrow>
                    if is_exception e' then (Accept # acts @ [Close 1011 msg], Returned)
                    else (Accept # acts @ [Close 1011 msg], Propagated e'))
           | (acts, Raised (NonException msg)) \<Rightarrow>
               (Accept # acts, Propagated (NonException msg))))"

text \<open>
  Two connections for the worked examples: on both the first tick passes; on the second
  tick the send raises, a disconnect on one and an \<^verbatim>\<open>Exception\<close> with text
  \<^verbatim>\<open>boom\<close> on the other, where the close raises as well.
\<close>

definition disconnecting_connection :: connection where
  "disconnecting_connection =
     \<lparr> accept_raises = None,
       ticks = [\<lparr> now = 0, send_text_raises = None, sleep_raises = None \<rparr>,
                \<lparr> now = 1/8, send_text_raises = Some WebSocketDisconnect,
                  sleep_raises = None \<rparr>],
       close_raises = None \<rparr>"

definition failing_connection :: connection where
  "failing_connection =
     \<lparr> accept_raises = None,
       ticks = [\<lparr> now = 0, send_text_raises = None, sleep_raises = None \<rparr>,
                \<lparr> now = 1/8, send_text_raises = Some (OtherException ''boom''),
                  sleep_raises = None \<rparr>],
       close_raises = Some (OtherException ''closed'') \<rparr>"

section \<open>Properties of the sample generator\<close>

subsection \<open>Truncation\<close>

lemma py_int_nonneg: "0 \<le> v \<Longrightarrow> py_int v = \<lfloor>v\<rfloor>"
  by (simp add: py_int_def)

lemma py_int_neg: "v < 0 \<Longrightarrow> py_int v = \<lceil>v\<rceil>"
  by (simp add: py_int_def)

lemma py_int_bounds:
  "- real_of_int c \<le> v \<Longrightarrow> v \<le> real_of_int c \<Longrightarrow> - c \<le> py_int v \<and> py_int v \<le> c"
  unfolding py_int_def
  by (auto simp: le_floor_iff ceiling_le_iff floor_le_iff le_ceiling_iff)

lemma py_int_sine: "- 25 \<le> py_int (25 * sin a) \<and> py_int (25 * sin a) \<le> 25"
proof -
  have "- 1 \<le> sin a" "sin a \<le> 1" by simp_all
  then have "- real_of_int 25 \<le> 25 * sin a" "25 * sin a \<le> real_of_int 25" by simp_all
  then show ?thesis using py_int_bounds [where c = 25 and v = "25 * sin a"] by simp
qed

lemma py_int_jitter:
  assumes "0 \<le> r" "r < 1" "0 < k"
  shows "0 \<le> py_int (r * real_of_int k) \<and> py_int (r * real_of_int k) \<le> k - 1"
proof -
  from assms have nn: "0 \<le> r * real_of_int k" by simp
  from assms have "r * real_of_int k < real_of_int k" by simp
  then have "\<lfloor>r * real_of_int k\<rfloor> < k" by (simp add: floor_less_iff)
  with nn show ?thesis by (simp add: py_int_def)
qed

subsection \<open>The eight channels\<close>

lemma emg_channels_length: "length (fst (emg_channels ts is s)) = length is"
  by (induction "is" arbitrary: s) (simp_all add: random_def case_prod_beta Let_def)

lemma emg_channels_snd: "snd (emg_channels ts is s) = (\<lambda>n. s (n + length is))"
  by (induction "is" arbitrary: s) (simp_all add: random_def case_prod_beta Let_def)

lemma emg_channels_nth:
  "k < length is \<Longrightarrow> fst (emg_channels ts is s) ! k =
     0.5 * sin (ts / (0.08 + real (is ! k) * 0.01)) + (s k - 0.5) * 0.2"
proof (induction "is" arbitrary: s k)
  case Nil
  then show ?case by simp
next
  case (Cons i "is")
  show ?case
  proof (cases k)
    case 0
    then show ?thesis by (simp add: random_def case_prod_beta Let_def)
  next
    case (Suc j)
    with Cons.prems have "j < length is" by simp
    from Cons.IH [OF this, of "\<lambda>n. s (Suc n)"] Suc show ?thesis
      by (simp add: random_def case_prod_beta Let_def)
  qed
qed

subsection \<open>The fields of a sample, by the draws they consume\<close>

text \<open>
  The draws are consumed in source order: draw 0 by the heart rate, draw 1 by the oxygen
  saturation, draw 2 by the lactate threshold, draws 3 to 10 by the eight channels.
\<close>

lemma gs_timestamp: "timestamp (fst (generate_sample ts s)) = py_int (ts * 1000)"
  by (simp add: generate_sample_def random_def Let_def case_prod_beta)

lemma gs_heartRate:
  "heartRate (fst (generate_sample ts s)) = 55 + py_int (25 * sin (ts / 0.5)) + py_int (s 0 * 5)"
  by (simp add: generate_sample_def random_def Let_def case_prod_beta)

lemma gs_oxygen: "oxygenSaturation (fst (generate_sample ts s)) = 96 + py_int (s 1 * 3)"
  by (simp add: generate_sample_def random_def Let_def case_prod_beta)

lemma gs_lactate: "lactateThreshold (fst (generate_sample ts s)) = 3.8 + s 2 * 0.6"
  by (simp add: generate_sample_def random_def Let_def numeral_2_eq_2 case_prod_beta)

lemma gs_motion: "motion (fst (generate_sample ts s)) =
    \<lparr> x_axis = sin (ts / 0.4) * 0.5, y_axis = cos (ts / 0.5) * 0.5, z_axis = sin (ts / 0.7) * 0.5 \<rparr>"
  by (simp add: generate_sample_def random_def Let_def case_prod_beta)

lemma gs_eeg: "eeg (fst (generate_sample ts s)) =
    \<lparr> alpha = \<bar>sin (ts / 0.9)\<bar>, beta = \<bar>sin (ts / 0.7)\<bar>, gamma = \<bar>sin (ts / 0.5)\<bar>,
      theta = \<bar>sin (ts / 1.2)\<bar>, delta = \<bar>sin (ts / 1.5)\<bar> \<rparr>"
  by (simp add: generate_sample_def random_def Let_def case_prod_beta)

lemma gs_emg:
  "emg (fst (generate_sample ts s)) = fst (emg_channels ts [0..<8] (\<lambda>n. s (n + 3)))"
  by (simp add: generate_sample_def random_def Let_def numeral_3_eq_3 case_prod_beta)

lemma gs_emg_length: "length (emg (fst (generate_sample ts s))) = 8"
  by (simp add: gs_emg emg_channels_length)

lemma gs_emg_nth: "i < 8 \<Longrightarrow> emg (fst (generate_sample ts s)) ! i =
    0.5 * sin (ts / (0.08 + real i * 0.01)) + (s (3 + i) - 0.5) * 0.2"
  by (simp add: gs_emg emg_channels_nth add.commute)

lemma gs_snd: "snd (generate_sample ts s) = (\<lambda>n. s (n + 11))"
  by (simp add: generate_sample_def random_def Let_def case_prod_beta emg_channels_snd
      fun_eq_iff add.commute)

lemma emg_value_closed_range:
  fixes a r :: real
  assumes "- 1 \<le> a" "a \<le> 1" "0 \<le> r" "r < 1"
  shows "- 0.6 \<le> 0.5 * a + (r - 0.5) * 0.2 \<and> 0.5 * a + (r - 0.5) * 0.2 \<le> 0.6"
  using assms by (simp add: field_simps)

text \<open>
  At \<^verbatim>\<open>ts = 3 * pi / 25\<close> the first channel's sine is \<^verbatim>\<open>sin(3 * pi / 2) = -1\<close>; with
  a draw of 0 the jitter is -0.1 and the value is -0.6.
\<close>

lemma emg_lower_end:
  "emg (fst (generate_sample (3 * pi / 25) (fixed_source 0))) ! 0 = - 0.6"
proof -
  have "3 * pi / 25 / (0.08 + real 0 * 0.01) = 3 / 2 * pi" by simp
  then have "sin (3 * pi / 25 / (0.08 + real 0 * 0.01)) = - 1"
    by (simp only: sin_3over2_pi)
  then show ?thesis
    using gs_emg_nth [of 0 "3 * pi / 25" "fixed_source 0"]
    by (simp add: fixed_source_def)
qed

section \<open>The claims about the sample generator\<close>

subsection \<open>Heart rate\<close>

text \<open>
  Claim C1, as amended. The specification words the heart rate with rounding to nearest and
  a jitter of 0 to 5. Line 74 applies \<^verbatim>\<open>int\<close> to both terms, which truncates toward
  zero: for every timestamp and every random source with draws in [0,1), the heart rate is
  55 plus the truncated sine term, which lies between -25 and 25, plus the truncated
  jitter \<^verbatim>\<open>int(random() * 5)\<close> of the first draw, which lies between 0 and 4.
\<close>

theorem heartRate_truncates:
  assumes "unit_draws s"
  shows "heartRate (fst (generate_sample ts s)) =
           55 + py_int (25 * sin (ts / 0.5)) + py_int (s 0 * 5)
         \<and> - 25 \<le> py_int (25 * sin (ts / 0.5)) \<and> py_int (25 * sin (ts / 0.5)) \<le> 25
         \<and> 0 \<le> py_int (s 0 * 5) \<and> py_int (s 0 * 5) \<le> 4"
proof -
  from assms have "0 \<le> s 0" "s 0 < 1" by (simp_all add: unit_draws_def)
  from py_int_jitter [OF this, of 5] have "0 \<le> py_int (s 0 * 5) \<and> py_int (s 0 * 5) \<le> 4"
    by simp
  with py_int_sine [of "ts / 0.5"] gs_heartRate [of ts s] show ?thesis by simp
qed

theorem heartRate_truncates_witness:
  "unit_draws (fixed_source (3/4))
   \<and> heartRate (fst (generate_sample 0 (fixed_source (3/4)))) = 55 + 0 + 3
   \<and> py_int (fixed_source (3/4) 0 * 5) = 3"
  using heartRate_truncates [of "fixed_source (3/4)" 0]
  by (simp add: unit_draws_def fixed_source_def py_int_def)

text \<open>
  The formula with rounding fails on the code: at timestamp 0 with every draw 0.75 the
  jitter is \<^verbatim>\<open>int(3.75) = 3\<close> and the heart rate 58, where rounding gives 59.
\<close>

theorem heartRate_round_counterexample:
  "heartRate (fst (generate_sample 0 (fixed_source (3/4)))) = 58
   \<and> spec_heartRate 0 (fixed_source (3/4) 0) = 59"
  by (simp add: gs_heartRate spec_heartRate_def fixed_source_def py_int_def round_def)

text \<open>
  Claim C9. For every timestamp and every random source with draws in [0,1), the heart
  rate of the generated sample lies in the closed interval [25, 105].
\<close>

theorem heartRate_range:
  assumes "unit_draws s"
  shows "25 \<le> heartRate (fst (generate_sample ts s))
         \<and> heartRate (fst (generate_sample ts s)) \<le> 105"
proof -
  from assms have "0 \<le> s 0" "s 0 < 1" by (simp_all add: unit_draws_def)
  from py_int_jitter [OF this, of 5] have "0 \<le> py_int (s 0 * 5) \<and> py_int (s 0 * 5) \<le> 4"
    by simp
  with py_int_sine [of "ts / 0.5"] show ?thesis by (simp add: gs_heartRate)
qed

theorem heartRate_range_witness:
  "unit_draws (fixed_source 0) \<and> 25 \<le> heartRate (fst (generate_sample 0 (fixed_source 0)))
   \<and> heartRate (fst (generate_sample 0 (fixed_source 0))) \<le> 105"
  using heartRate_range [of "fixed_source 0" 0]
  by (simp add: unit_draws_def fixed_source_def)

subsection \<open>Oxygen saturation\<close>

text \<open>
  Claim C5, as amended. The specification words the oxygen saturation with rounding to
  nearest, a jitter of 0 to 3 and an attainable value 99. Line 75 truncates: for every
  timestamp and every random source with draws in [0,1), the oxygen saturation is 96 plus
  \<^verbatim>\<open>int(random() * 3)\<close> of the second draw, which is between 0 and 2, so the value lies
  in [96, 98]; 98 is attained by some source with draws in [0,1), and 99 never is.
\<close>

theorem oxygenSaturation_truncates:
  assumes "unit_draws s"
  shows "oxygenSaturation (fst (generate_sample ts s)) = 96 + py_int (s 1 * 3)
         \<and> 0 \<le> py_int (s 1 * 3) \<and> py_int (s 1 * 3) \<le> 2
         \<and> 96 \<le> oxygenSaturation (fst (generate_sample ts s))
         \<and> oxygenSaturation (fst (generate_sample ts s)) \<le> 98
         \<and> (\<exists>s'. unit_draws s' \<and> oxygenSaturation (fst (generate_sample ts s')) = 98)"
proof -
  from assms have "0 \<le> s 1" "s 1 < 1" by (simp_all add: unit_draws_def)
  from py_int_jitter [OF this, of 3] have j: "0 \<le> py_int (s 1 * 3) \<and> py_int (s 1 * 3) \<le> 2"
    by simp
  have "unit_draws (fixed_source (7/8))
        \<and> oxygenSaturation (fst (generate_sample ts (fixed_source (7/8)))) = 98"
    by (simp add: gs_oxygen unit_draws_def fixed_source_def py_int_def)
  then have "\<exists>s'. unit_draws s' \<and> oxygenSaturation (fst (generate_sample ts s')) = 98"
    by blast
  with j gs_oxygen [of ts s] show ?thesis by simp
qed

theorem oxygenSaturation_truncates_witness:
  "unit_draws (fixed_source (1/2))
   \<and> oxygenSaturation (fst (generate_sample 0 (fixed_source (1/2)))) = 97"
  using oxygenSaturation_truncates [of "fixed_source (1/2)" 0]
  by (simp add: unit_draws_def fixed_source_def py_int_def)

text \<open>
  The formula with rounding fails on the code: with every draw 0.875 the jitter is
  \<^verbatim>\<open>int(2.625) = 2\<close> and the oxygen saturation 98, where rounding gives 99.
\<close>

theorem oxygenSaturation_round_counterexample:
  "oxygenSaturation (fst (generate_sample 0 (fixed_source (7/8)))) = 98
   \<and> spec_oxygenSaturation (fixed_source (7/8) 1) = 99"
  by (simp add: gs_oxygen spec_oxygenSaturation_def py_int_def round_def fixed_source_def)

subsection \<open>Timestamp\<close>

text \<open>
  Claim C4, as amended. The specification words the timestamp as the milliseconds rounded
  to the nearest integer. Line 91 truncates: for every timestamp \<^verbatim>\<open>ts\<close> the field is
  \<^verbatim>\<open>int(ts * 1000)\<close>, the milliseconds truncated toward zero, which is the floor of
  \<^verbatim>\<open>ts * 1000\<close> for a non-negative \<^verbatim>\<open>ts\<close> and its ceiling for a negative one.
\<close>

theorem timestamp_truncates:
  "timestamp (fst (generate_sample ts s)) = py_int (ts * 1000)
   \<and> (0 \<le> ts \<longrightarrow> timestamp (fst (generate_sample ts s)) = \<lfloor>ts * 1000\<rfloor>)
   \<and> (ts < 0 \<longrightarrow> timestamp (fst (generate_sample ts s)) = \<lceil>ts * 1000\<rceil>)"
  by (simp add: gs_timestamp py_int_def)

theorem timestamp_truncates_witness:
  "(0::real) \<le> 1/1024 \<and> timestamp (fst (generate_sample (1/1024) (fixed_source 0))) = 0
   \<and> (- 1/1024 :: real) < 0
   \<and> timestamp (fst (generate_sample (- 1/1024) (fixed_source 0))) = 0"
  using timestamp_truncates [of "1/1024" "fixed_source 0"]
    timestamp_truncates [of "- 1/1024" "fixed_source 0"]
  by simp

text \<open>
  The formula with rounding fails on the code: at \<^verbatim>\<open>ts = 1/1024\<close> the milliseconds are
  0.9765625, which truncate to 0 and round to 1.
\<close>

theorem timestamp_round_counterexample:
  "timestamp (fst (generate_sample (1/1024) (fixed_source 0))) = 0
   \<and> spec_timestamp (1/1024) = 1"
  by (simp add: gs_timestamp spec_timestamp_def py_int_def round_def)

subsection \<open>The schema scenario\<close>

text \<open>
  Claim C2. At timestamp 0 with a random source that always returns 0, the generated sample
  has heart rate 55, oxygen saturation 96, lactate threshold 3.8, motion (0, 0.5, 0),
  first channel value -0.1, all five bands 0 and timestamp 0.
\<close>

theorem schema_scenario:
  "heartRate (fst (generate_sample 0 (fixed_source 0))) = 55
   \<and> oxygenSaturation (fst (generate_sample 0 (fixed_source 0))) = 96
   \<and> lactateThreshold (fst (generate_sample 0 (fixed_source 0))) = 3.8
   \<and> motion (fst (generate_sample 0 (fixed_source 0))) =
       \<lparr> x_axis = 0, y_axis = 0.5, z_axis = 0 \<rparr>
   \<and> emg (fst (generate_sample 0 (fixed_source 0))) ! 0 = - 0.1
   \<and> eeg (fst (generate_sample 0 (fixed_source 0))) =
       \<lparr> alpha = 0, beta = 0, gamma = 0, theta = 0, delta = 0 \<rparr>
   \<and> timestamp (fst (generate_sample 0 (fixed_source 0))) = 0"
  by (simp add: gs_heartRate gs_oxygen gs_lactate gs_motion gs_emg_nth gs_eeg gs_timestamp
      fixed_source_def py_int_def)

subsection \<open>Bands and channels\<close>

text \<open>
  Claim C7. For every timestamp, each band is the absolute value of the sine of the
  timestamp divided by the band's period (alpha 0.9, beta 0.7, gamma 0.5, theta 1.2,
  delta 1.5), and so every band lies in [0, 1].
\<close>

theorem eeg_bands:
  "alpha (eeg (fst (generate_sample ts s))) = \<bar>sin (ts / 0.9)\<bar>
   \<and> beta (eeg (fst (generate_sample ts s))) = \<bar>sin (ts / 0.7)\<bar>
   \<and> gamma (eeg (fst (generate_sample ts s))) = \<bar>sin (ts / 0.5)\<bar>
   \<and> theta (eeg (fst (generate_sample ts s))) = \<bar>sin (ts / 1.2)\<bar>
   \<and> delta (eeg (fst (generate_sample ts s))) = \<bar>sin (ts / 1.5)\<bar>
   \<and> 0 \<le> alpha (eeg (fst (generate_sample ts s)))
   \<and> alpha (eeg (fst (generate_sample ts s))) \<le> 1
   \<and> 0 \<le> beta (eeg (fst (generate_sample ts s)))
   \<and> beta (eeg (fst (generate_sample ts s))) \<le> 1
   \<and> 0 \<le> gamma (eeg (fst (generate_sample ts s)))
   \<and> gamma (eeg (fst (generate_sample ts s))) \<le> 1
   \<and> 0 \<le> theta (eeg (fst (generate_sample ts s)))
   \<and> theta (eeg (fst (generate_sample ts s))) \<le> 1
   \<and> 0 \<le> delta (eeg (fst (generate_sample ts s)))
   \<and> delta (eeg (fst (generate_sample ts s))) \<le> 1"
  by (simp add: gs_eeg)

text \<open>
  Claim C8. For every timestamp and random source, the \<^verbatim>\<open>emg\<close> field has exactly 8
  entries, and entry \<^verbatim>\<open>i\<close> is \<^verbatim>\<open>0.5 * sin(ts / (0.08 + i * 0.01))\<close> plus the jitter
  \<^verbatim>\<open>(r - 0.5) * 0.2\<close> of a draw of its own: draw \<^verbatim>\<open>3 + i\<close> of the call, the first
  three draws going to the heart rate, the oxygen saturation and the lactate threshold.
\<close>

theorem emg_channels_formula:
  "length (emg (fst (generate_sample ts s))) = 8
   \<and> (\<forall>i<8. emg (fst (generate_sample ts s)) ! i =
          0.5 * sin (ts / (0.08 + real i * 0.01)) + (s (3 + i) - 0.5) * 0.2)"
  by (simp add: gs_emg_length gs_emg_nth)

theorem emg_channels_formula_witness:
  "(7::nat) < 8 \<and> emg (fst (generate_sample 0 (fixed_source (3/4)))) ! 7 = 0.05"
  using emg_channels_formula [of 0 "fixed_source (3/4)"]
  by (simp add: fixed_source_def)

text \<open>
  Claim C10, as amended. For every timestamp and every random source with draws in [0,1),
  each of the channel values lies in the closed interval [-0.6, 0.6]: the sine term is at
  most 0.5 in magnitude and the jitter \<^verbatim>\<open>(random() - 0.5) * 0.2\<close> at most 0.1 in
  magnitude. The end -0.6 is attained, with the sine term at -0.5 and a draw of 0, so a
  channel value does reach 0.6 in magnitude. Only the closed bounds are stated: the
  code's double arithmetic rounds the sum and can land on either end of the interval.
\<close>

theorem emg_closed_range:
  assumes "unit_draws s"
  shows "(\<forall>v \<in> set (emg (fst (generate_sample ts s))). - 0.6 \<le> v \<and> v \<le> 0.6)
         \<and> (\<exists>ts' s'. unit_draws s' \<and> emg (fst (generate_sample ts' s')) ! 0 = - 0.6)"
proof
  show "\<forall>v \<in> set (emg (fst (generate_sample ts s))). - 0.6 \<le> v \<and> v \<le> 0.6"
  proof
    fix v assume "v \<in> set (emg (fst (generate_sample ts s)))"
    then obtain i where i: "i < 8" and v: "v = emg (fst (generate_sample ts s)) ! i"
      by (auto simp: in_set_conv_nth gs_emg_length)
    from assms have r: "0 \<le> s (3 + i)" "s (3 + i) < 1" by (simp_all add: unit_draws_def)
    from emg_value_closed_range [OF sin_ge_minus_one sin_le_one r]
    show "- 0.6 \<le> v \<and> v \<le> 0.6" unfolding v gs_emg_nth [OF i] .
  qed
next
  have "unit_draws (fixed_source 0)" by (simp add: unit_draws_def fixed_source_def)
  with emg_lower_end
  show "\<exists>ts' s'. unit_draws s' \<and> emg (fst (generate_sample ts' s')) ! 0 = - 0.6"
    by blast
qed

theorem emg_closed_range_witness:
  "unit_draws (fixed_source 0)
   \<and> hd (emg (fst (generate_sample 0 (fixed_source 0))))
       \<in> set (emg (fst (generate_sample 0 (fixed_source 0))))
   \<and> - 0.6 \<le> hd (emg (fst (generate_sample 0 (fixed_source 0))))
   \<and> hd (emg (fst (generate_sample 0 (fixed_source 0)))) \<le> 0.6"
proof -
  have u: "unit_draws (fixed_source 0)" by (simp add: unit_draws_def fixed_source_def)
  have "emg (fst (generate_sample 0 (fixed_source 0))) \<noteq> []"
    using gs_emg_length [of 0 "fixed_source 0"] by auto
  then have m: "hd (emg (fst (generate_sample 0 (fixed_source 0))))
      \<in> set (emg (fst (generate_sample 0 (fixed_source 0))))"
    by simp
  from emg_closed_range [OF u, of 0] m u show ?thesis by blast
qed

text \<open>
  The magnitude 0.6 is reached: at \<^verbatim>\<open>ts = 3 * pi / 25\<close> with every draw 0 the first
  channel is \<^verbatim>\<open>0.5 * sin(3 * pi / 2) + (0 - 0.5) * 0.2 = -0.6\<close>.
\<close>

theorem emg_magnitude_counterexample:
  "unit_draws (fixed_source 0)
   \<and> \<bar>emg (fst (generate_sample (3 * pi / 25) (fixed_source 0))) ! 0\<bar> = 0.6"
proof -
  have "unit_draws (fixed_source 0)" by (simp add: unit_draws_def fixed_source_def)
  with emg_lower_end show ?thesis by simp
qed

section \<open>The claims about the connection handler\<close>

lemma streaming_loop_no_close: "filter is_close (fst (streaming_loop tks s)) = []"
  by (induction tks arbitrary: s) (simp_all add: case_prod_beta Let_def split: option.splits)

text \<open>The loop is still running exactly when no step of the given ticks raised.\<close>

lemma streaming_loop_pending:
  "snd (streaming_loop tks s) = Pending \<longleftrightarrow>
     (\<forall>t \<in> set tks. send_text_raises t = None \<and> sleep_raises t = None)"
  by (induction tks arbitrary: s) (auto simp add: case_prod_beta Let_def split: option.splits)

text \<open>
  Claim C3. On an accepted connection, for every run of the streaming loop that ends with
  an exception \<open>e\<close>: if \<open>e\<close> is the peer's disconnect, the handler returns, having made
  the loop's calls and no close; if \<open>e\<close> is any other \<^verbatim>\<open>Exception\<close> with description
  \<open>msg\<close>, the handler makes exactly one close, with code 1011 and reason \<open>msg\<close>, as its
  last call, and returns whether that close succeeds or raises an \<^verbatim>\<open>Exception\<close> of its
  own. Errors are the instances of \<^verbatim>\<open>Exception\<close>.
\<close>

theorem handler_termination:
  assumes "accept_raises c = None" and "snd (streaming_loop (ticks c) s) = Raised e"
  shows "(e = WebSocketDisconnect \<longrightarrow>
            websocket_telemetry c s = (Accept # fst (streaming_loop (ticks c) s), Returned)
            \<and> filter is_close (fst (websocket_telemetry c s)) = [])
       \<and> (\<forall>msg. e = OtherException msg
              \<and> (\<forall>e'. close_raises c = Some e' \<longrightarrow> is_exception e') \<longrightarrow>
            websocket_telemetry c s =
              (Accept # fst (streaming_loop (ticks c) s) @ [Close 1011 msg], Returned)
            \<and> filter is_close (fst (websocket_telemetry c s)) = [Close 1011 msg])"
proof -
  obtain acts where sl: "streaming_loop (ticks c) s = (acts, Raised e)"
    using assms(2) by (cases "streaming_loop (ticks c) s") simp
  have nc: "filter is_close acts = []"
    using streaming_loop_no_close [of "ticks c" s] sl by simp
  show ?thesis
    using assms(1) sl nc
    by (auto simp: websocket_telemetry_def split: option.splits)
qed

theorem handler_termination_witness:
  "snd (websocket_telemetry disconnecting_connection (fixed_source 0)) = Returned
   \<and> filter is_close (fst (websocket_telemetry disconnecting_connection (fixed_source 0))) = []
   \<and> snd (websocket_telemetry failing_connection (fixed_source 0)) = Returned
   \<and> filter is_close (fst (websocket_telemetry failing_connection (fixed_source 0)))
       = [Close 1011 ''boom'']"
proof -
  have a1: "accept_raises disconnecting_connection = None"
    by (simp add: disconnecting_connection_def)
  have l1: "snd (streaming_loop (ticks disconnecting_connection) (fixed_source 0))
      = Raised WebSocketDisconnect"
    by (simp add: disconnecting_connection_def case_prod_beta Let_def)
  have a2: "accept_raises failing_connection = None"
    by (simp add: failing_connection_def)
  have l2: "snd (streaming_loop (ticks failing_connection) (fixed_source 0))
      = Raised (OtherException ''boom'')"
    by (simp add: failing_connection_def case_prod_beta Let_def)
  have c2: "\<forall>e'. close_raises failing_connection = Some e' \<longrightarrow> is_exception e'"
    by (simp add: failing_connection_def)
  from handler_termination [OF a1 l1] handler_termination [OF a2 l2] c2
  show ?thesis by (simp add: streaming_loop_no_close)
qed

end
